theory Spec2Isabelle
  imports Main "HOL-Library.Sublist"
begin

section \<open>The session middleware of mach (modules/middleware/session.js)\<close>

text \<open>
  The theory embeds \<^verbatim>\<open>src/modules/middleware/session.js\<close>: the functions
  \<^verbatim>\<open>_makeHash\<close>, \<^verbatim>\<open>Session.prototype.encodeSession\<close>,
  \<^verbatim>\<open>Session.prototype.decodeCookie\<close>, \<^verbatim>\<open>Session.prototype.apply\<close> and the
  table \<^verbatim>\<open>submodules\<close>.

  Conventions of the embedding.
  \<^item> A JavaScript string is a \<open>string\<close>; one \<open>char\<close> stands for one code unit, and
    \<open>length\<close> is the \<^verbatim>\<open>.length\<close> of the source. No proof below depends on the range
    of a code unit.
  \<^item> The functions of \<^verbatim>\<open>../utils\<close>, the store, the downstream app and the clock are
    not part of the file; they are parameters of the model (records of functions).
  \<^item> The store and the app return promises, as their contract says; a promise is
    modelled by the way it settles. Callbacks of \<^verbatim>\<open>then\<close> run in the order in which
    the source chains them, so the asynchronous pipeline of one request is a sequential
    state-passing function.
  \<^item> Mutable objects (the request, the response headers, the store, the error stream)
    are threaded through explicitly. Every call that leaves the middleware is also
    recorded, in order, in a trace.
\<close>

subsection \<open>JavaScript values\<close>

datatype jsval =
    Undefined
  | Null
  | Bool bool
  | Num int
  | Str string
  | Obj "(string \<times> jsval) list"

text \<open>ToBoolean: what \<^verbatim>\<open>if (v)\<close>, \<^verbatim>\<open>v && e\<close> and \<^verbatim>\<open>v || e\<close> test.\<close>

fun truthy :: "jsval \<Rightarrow> bool" where
  "truthy Undefined = False"
| "truthy Null = False"
| "truthy (Bool b) = b"
| "truthy (Num n) = (n \<noteq> 0)"
| "truthy (Str s) = (s \<noteq> [])"
| "truthy (Obj kvs) = True"

text \<open>
  A thrown or rejected error: an object of the class \<^verbatim>\<open>Error\<close> itself, as
  \<^verbatim>\<open>new Error(msg)\<close> makes it, with its message.
\<close>

datatype error = Error string

text \<open>
  \<^verbatim>\<open>'...' + error\<close> appends \<^verbatim>\<open>error.toString()\<close>, which is the name alone when
  the message is empty.
\<close>

fun toString :: "error \<Rightarrow> string" where
  "toString (Error msg) = (if msg = [] then ''Error'' else ''Error: '' @ msg)"

text \<open>A promise, by the way it settles.\<close>

datatype 'a promise = Rejected error | Resolved 'a

text \<open>
  The argument of \<^verbatim>\<open>RSVP.resolve\<close> in the source is either a plain value or a promise.
\<close>

datatype thenable = Plain jsval | Promise "jsval promise"

fun RSVP_resolve :: "thenable \<Rightarrow> jsval promise" where
  "RSVP_resolve (Plain v) = Resolved v"
| "RSVP_resolve (Promise p) = p"

subsection \<open>String primitives used by the source\<close>

text \<open>Whether \<open>pat\<close> occurs in \<open>s\<close> at index \<open>k\<close>.\<close>

definition occursAt :: "string \<Rightarrow> string \<Rightarrow> nat \<Rightarrow> bool" where
  "occursAt s pat k = (take (length pat) (drop k s) = pat)"

text \<open>
  \<^verbatim>\<open>String.prototype.lastIndexOf(pat)\<close>: the largest index not above the length at
  which \<open>pat\<close> occurs, searched downwards; \<open>-1\<close> when there is none.
\<close>

fun lastIndexFrom :: "string \<Rightarrow> string \<Rightarrow> nat \<Rightarrow> int" where
  "lastIndexFrom s pat 0 = (if occursAt s pat 0 then 0 else - 1)"
| "lastIndexFrom s pat (Suc k) =
     (if occursAt s pat (Suc k) then int (Suc k) else lastIndexFrom s pat k)"

definition lastIndexOf :: "string \<Rightarrow> string \<Rightarrow> int" where
  "lastIndexOf s pat = lastIndexFrom s pat (length s)"

text \<open>
  \<^verbatim>\<open>String.prototype.substring(start, end)\<close>: both arguments are clamped to
  \<open>[0, length]\<close> and swapped when \<open>start\<close> is the larger one.
\<close>

definition substring :: "string \<Rightarrow> int \<Rightarrow> int \<Rightarrow> string" where
  "substring s start fin =
     (let len = int (length s);
          finalStart = min (max start 0) len;
          finalEnd = min (max fin 0) len;
          from = min finalStart finalEnd;
          to = max finalStart finalEnd
      in take (nat (to - from)) (drop (nat from) s))"

text \<open>\<^verbatim>\<open>substring(start)\<close>: the end defaults to the length.\<close>

definition substringFrom :: "string \<Rightarrow> int \<Rightarrow> string" where
  "substringFrom s start = substring s start (int (length s))"

subsection \<open>The collaborators of the middleware\<close>

record request =
  session :: jsval
  cookies :: "string \<rightharpoonup> string"

record 'h response =
  headers :: 'h

text \<open>The options object handed to \<^verbatim>\<open>utils.setCookie\<close>.\<close>

record cookie =
  opt_value :: jsval
  opt_path :: string
  opt_domain :: "string option"
  opt_expires :: "int option"
  opt_httpOnly :: bool
  opt_secure :: bool

text \<open>
  A store: \<^verbatim>\<open>save(session)\<close> is a promise for the data to put in the cookie,
  \<^verbatim>\<open>load(data)\<close> a promise for the session. Both may read and change the world
  \<open>'w\<close> (the memory of a MemoryStore, a Redis server).
\<close>

record 'w Store =
  save :: "jsval \<Rightarrow> 'w \<Rightarrow> string promise \<times> 'w"
  load :: "string \<Rightarrow> 'w \<Rightarrow> jsval promise \<times> 'w"

text \<open>
  What the file takes from outside: \<^verbatim>\<open>utils.encodeBase64\<close>, \<^verbatim>\<open>utils.decodeBase64\<close>,
  \<^verbatim>\<open>utils.makeHash\<close>, \<^verbatim>\<open>utils.setCookie\<close> (which changes the headers it is given)
  and \<^verbatim>\<open>Date.now()\<close>, in milliseconds.
\<close>

record ('w, 'h) Env =
  utils_encodeBase64 :: "string \<Rightarrow> string"
  utils_decodeBase64 :: "string \<Rightarrow> string"
  utils_makeHash :: "string \<Rightarrow> string"
  utils_setCookie :: "'h \<Rightarrow> string \<Rightarrow> cookie \<Rightarrow> 'h"
  Date_now :: "'w \<Rightarrow> int"

text \<open>
  The fields of a \<^verbatim>\<open>Session\<close> instance (\<^verbatim>\<open>this._secret\<close>, ...). The app is the
  downstream handler: it may change the request (its session above all) and the world,
  and its promise resolves with a response or rejects. \<open>this_expireAfter\<close> is in whole
  seconds.
\<close>

record ('w, 'h) Session =
  this_secret :: "string option"
  this_name :: string
  this_path :: string
  this_domain :: "string option"
  this_isSecure :: bool
  this_expireAfter :: int
  this_isHttpOnly :: bool
  this_store :: "'w Store"
  this_app :: "request \<Rightarrow> 'w \<Rightarrow> 'h response promise \<times> request \<times> 'w"

text \<open>The calls that leave the middleware, as recorded in the trace.\<close>

datatype event =
    StoreLoad string
  | StoreSave jsval
  | CallApp jsval
  | ErrorWrite string
  | SetCookie string cookie

text \<open>The state of one request while the middleware runs.\<close>

record 'w st =
  req :: request
  world :: 'w
  trace :: "event list"

text \<open>
  \<^verbatim>\<open>request.call(app)\<close>. The trace keeps the session the app was given.
\<close>

definition call ::
  "(request \<Rightarrow> 'w \<Rightarrow> 'h response promise \<times> request \<times> 'w) \<Rightarrow> 'w st \<Rightarrow> 'h response promise \<times> 'w st" where
  "call app s =
     (let (p, r', w') = app (req s) (world s)
      in (p, s\<lparr>req := r', world := w', trace := trace s @ [CallApp (session (req s))]\<rparr>))"

text \<open>\<^verbatim>\<open>request.error.write(msg)\<close>.\<close>

definition error_write :: "string \<Rightarrow> 'w st \<Rightarrow> 'w st" where
  "error_write msg s = s\<lparr>trace := trace s @ [ErrorWrite msg]\<rparr>"

subsection \<open>The functions of session.js\<close>

definition MAX_COOKIE_SIZE :: nat where
  "MAX_COOKIE_SIZE = 4096"

text \<open>
  \<^verbatim>\<open>_makeHash(data, secret)\<close>:
  \<^verbatim>\<open>utils.makeHash(secret ? data + secret : data)\<close>. An undefined secret and the
  empty string are both falsy.
\<close>

definition makeHash' :: "('w, 'h) Env \<Rightarrow> string \<Rightarrow> string option \<Rightarrow> string" where
  "makeHash' env data secret =
     utils_makeHash env
       (case secret of
          None \<Rightarrow> data
        | Some k \<Rightarrow> if k \<noteq> [] then data @ k else data)"

text \<open>
  \<^verbatim>\<open>Session.prototype.encodeSession\<close>. The \<^verbatim>\<open>throw\<close> inside the \<^verbatim>\<open>then\<close> callback
  rejects the promise that \<^verbatim>\<open>encodeSession\<close> returns.
\<close>

definition encodeSession ::
  "('w, 'h) Session \<Rightarrow> ('w, 'h) Env \<Rightarrow> jsval \<Rightarrow> 'w st \<Rightarrow> jsval promise \<times> 'w st" where
  "encodeSession self env sess s =
     (let secret = this_secret self;
          (p, w') = save (this_store self) sess (world s);
          s' = s\<lparr>world := w', trace := trace s @ [StoreSave sess]\<rparr>
      in case p of
           Rejected e \<Rightarrow> (Rejected e, s')
         | Resolved data \<Rightarrow>
             (let cookie = utils_encodeBase64 env (data @ ''--'' @ makeHash' env data secret)
              in if length cookie > MAX_COOKIE_SIZE
                 then (Rejected (Error ''Cookie data size exceeds 4kb; content dropped''), s')
                 else (Resolved (Str cookie), s')))"

text \<open>
  \<^verbatim>\<open>Session.prototype.decodeCookie\<close>: the promise of \<^verbatim>\<open>this._store.load(data)\<close>, or
  \<^verbatim>\<open>null\<close>.
\<close>

definition decodeCookie ::
  "('w, 'h) Session \<Rightarrow> ('w, 'h) Env \<Rightarrow> string \<Rightarrow> 'w st \<Rightarrow> thenable \<times> 'w st" where
  "decodeCookie self env cookie s =
     (let val = utils_decodeBase64 env cookie;
          index = lastIndexOf val ''--'';
          data = substring val 0 index;
          hash = substringFrom val (index + 2)
      in if hash = makeHash' env data (this_secret self)
         then (let (p, w') = load (this_store self) data (world s)
               in (Promise p, s\<lparr>world := w', trace := trace s @ [StoreLoad data]\<rparr>))
         else (Plain Null, s))"

text \<open>
  The callbacks of \<^verbatim>\<open>Session.prototype.apply\<close>, innermost first. \<open>cookie\<close> is the
  variable of that name: \<open>None\<close> when the request has no cookie of the configured name.
\<close>

definition cookieVal :: "string option \<Rightarrow> jsval" where
  "cookieVal cookie = (case cookie of None \<Rightarrow> Undefined | Some c \<Rightarrow> Str c)"

text \<open>
  \<^verbatim>\<open>function (newCookie) { ... }\<close>. \<open>expires\<close> is \<open>None\<close> for the falsy
  \<^verbatim>\<open>expireAfter\<close> that \<^verbatim>\<open>&&\<close> passes on, and the time of the \<^verbatim>\<open>Date\<close> otherwise.
  \<^verbatim>\<open>newCookie === cookie\<close> compares a value with a string or \<^verbatim>\<open>undefined\<close>, which is
  equality of the two values.
\<close>

definition onEncoded ::
  "('w, 'h) Session \<Rightarrow> ('w, 'h) Env \<Rightarrow> string option \<Rightarrow> 'h response \<Rightarrow> jsval \<Rightarrow> 'w st
     \<Rightarrow> 'h response promise \<times> 'w st" where
  "onEncoded self env cookie resp newCookie s =
     (let expireAfter = this_expireAfter self;
          expires = (if expireAfter \<noteq> 0
                     then Some (Date_now env (world s) + expireAfter * 1000)
                     else None)
      in if newCookie = cookieVal cookie \<and> expires = None
         then (Resolved resp, s)
         else
           (let opts = \<lparr>opt_value = newCookie,
                        opt_path = this_path self,
                        opt_domain = this_domain self,
                        opt_expires = expires,
                        opt_httpOnly = this_isHttpOnly self,
                        opt_secure = this_isSecure self\<rparr>
            in (Resolved (resp\<lparr>headers := utils_setCookie env (headers resp) (this_name self) opts\<rparr>),
                s\<lparr>trace := trace s @ [SetCookie (this_name self) opts]\<rparr>)))"

text \<open>The rejection handler of the encoding: \<^verbatim>\<open>function (error) { ... return response; }\<close>.\<close>

definition onEncodeError :: "'h response \<Rightarrow> error \<Rightarrow> 'w st \<Rightarrow> 'h response promise \<times> 'w st" where
  "onEncodeError resp err s =
     (Resolved resp, error_write (''Error encoding session data: '' @ toString err) s)"

text \<open>
  \<^verbatim>\<open>function (response) { return RSVP.resolve(request.session &&
  self.encodeSession(request.session)).then(..., ...); }\<close>
\<close>

definition onResponse ::
  "('w, 'h) Session \<Rightarrow> ('w, 'h) Env \<Rightarrow> string option \<Rightarrow> 'h response \<Rightarrow> 'w st
     \<Rightarrow> 'h response promise \<times> 'w st" where
  "onResponse self env cookie resp s =
     (let (p, s') =
            (if truthy (session (req s))
             then encodeSession self env (session (req s)) s
             else (Resolved (session (req s)), s))
      in case p of
           Resolved newCookie \<Rightarrow> onEncoded self env cookie resp newCookie s'
         | Rejected err \<Rightarrow> onEncodeError resp err s')"

text \<open>
  \<^verbatim>\<open>function (session) { request.session = session || {}; return
  request.call(app).then(function (response) { ... }); }\<close>. The inner \<^verbatim>\<open>then\<close> has no
  rejection handler.
\<close>

definition onSession ::
  "('w, 'h) Session \<Rightarrow> ('w, 'h) Env \<Rightarrow> string option \<Rightarrow> jsval \<Rightarrow> 'w st
     \<Rightarrow> 'h response promise \<times> 'w st" where
  "onSession self env cookie sess s =
     (let s1 = s\<lparr>req := (req s)\<lparr>session := (if truthy sess then sess else Obj [])\<rparr>\<rparr>;
          (r, s2) = call (this_app self) s1
      in case r of
           Resolved resp \<Rightarrow> onResponse self env cookie resp s2
         | Rejected err \<Rightarrow> (Rejected err, s2))"

text \<open>
  The rejection handler of the decoding:
  \<^verbatim>\<open>function (error) { request.error.write(...); return request.call(app); }\<close>.
\<close>

definition onDecodeError ::
  "('w, 'h) Session \<Rightarrow> error \<Rightarrow> 'w st \<Rightarrow> 'h response promise \<times> 'w st" where
  "onDecodeError self err s =
     call (this_app self) (error_write (''Error decoding session data: '' @ toString err) s)"

text \<open>
  \<^verbatim>\<open>cookie && self.decodeCookie(cookie)\<close>: a missing cookie and the empty string are
  passed on as they are.
\<close>

definition decodeIfPresent ::
  "('w, 'h) Session \<Rightarrow> ('w, 'h) Env \<Rightarrow> string option \<Rightarrow> 'w st \<Rightarrow> thenable \<times> 'w st" where
  "decodeIfPresent self env cookie s =
     (case cookie of
        None \<Rightarrow> (Plain Undefined, s)
      | Some c \<Rightarrow> if c \<noteq> [] then decodeCookie self env c s else (Plain (Str c), s))"

text \<open>
  \<^verbatim>\<open>Session.prototype.apply\<close>. With both handlers given to one \<^verbatim>\<open>then\<close>, the
  rejection handler sees a rejection of the decoding only, never one raised by the
  fulfilment handler.
\<close>

definition Session_apply ::
  "('w, 'h) Session \<Rightarrow> ('w, 'h) Env \<Rightarrow> 'w st \<Rightarrow> 'h response promise \<times> 'w st" where
  "Session_apply self env s =
     (let app = this_app self;
          cookieName = this_name self
      in if truthy (session (req s))
         then call app s
         else
           (let cookie = cookies (req s) cookieName;
                (d, s') = decodeIfPresent self env cookie s
            in case RSVP_resolve d of
                 Resolved sess \<Rightarrow> onSession self env cookie sess s'
               | Rejected err \<Rightarrow> onDecodeError self err s'))"

text \<open>
  The table \<^verbatim>\<open>submodules\<close>, and the getters that the last lines of the file define on
  \<^verbatim>\<open>module.exports\<close>: one for each key of the table, requiring the path stored under it.
\<close>

definition submodules :: "(string \<times> string) list" where
  "submodules =
     [(''CookieStore'', ''./session/cookie-store''),
      (''MemoryStore'', ''./session/memory-store''),
      (''RedisStore'', ''./session/redis-store'')]"

definition getterNames :: "string list" where
  "getterNames = map fst submodules"

definition getter :: "string \<Rightarrow> string option" where
  "getter name = map_of submodules name"


subsection \<open>Notions used to state the properties\<close>

text \<open>
  The two parts that \<^verbatim>\<open>decodeCookie\<close> takes from the decoded value: \<^verbatim>\<open>data\<close> and
  \<^verbatim>\<open>hash\<close>.
\<close>

definition splitValue :: "string \<Rightarrow> string \<times> string" where
  "splitValue val =
     (let index = lastIndexOf val ''--''
      in (substring val 0 index, substringFrom val (index + 2)))"

text \<open>
  The state in which \<^verbatim>\<open>apply\<close> calls the app: what the three places of the source
  that call \<^verbatim>\<open>request.call(app)\<close> have done before.
\<close>

definition handlerState :: "('w, 'h) Session \<Rightarrow> ('w, 'h) Env \<Rightarrow> 'w st \<Rightarrow> 'w st" where
  "handlerState self env s =
     (if truthy (session (req s)) then s
      else
        (let (d, s') = decodeIfPresent self env (cookies (req s) (this_name self)) s
         in case RSVP_resolve d of
              Resolved sess \<Rightarrow>
                s'\<lparr>req := (req s')\<lparr>session := (if truthy sess then sess else Obj [])\<rparr>\<rparr>
            | Rejected err \<Rightarrow>
                error_write (''Error decoding session data: '' @ toString err) s'))"

fun isStoreSave :: "event \<Rightarrow> bool" where
  "isStoreSave (StoreSave v) = True"
| "isStoreSave e = False"

fun isSetCookie :: "event \<Rightarrow> bool" where
  "isSetCookie (SetCookie n c) = True"
| "isSetCookie e = False"

fun isErrorWrite :: "event \<Rightarrow> bool" where
  "isErrorWrite (ErrorWrite m) = True"
| "isErrorWrite e = False"

subsection \<open>A concrete configuration\<close>

text \<open>
  An instance of the parameters, on which the theorems below are run. The store and
  the app answer with fixed promises. List reversal stands for base64 (it is its own
  inverse), and the hash keeps the letters of its input. The session has the defaults
  of the constructor: the cookie \<^verbatim>\<open>_session\<close>, the path \<^verbatim>\<open>/\<close>, \<^verbatim>\<open>httpOnly\<close>.
\<close>

definition fixedStore :: "string promise \<Rightarrow> jsval promise \<Rightarrow> unit Store" where
  "fixedStore saved loaded =
     \<lparr>save = (\<lambda>sess w. (saved, w)), load = (\<lambda>data w. (loaded, w))\<rparr>"

definition fixedApp ::
  "(string \<times> cookie) list response promise \<Rightarrow> request \<Rightarrow> unit
     \<Rightarrow> (string \<times> cookie) list response promise \<times> request \<times> unit" where
  "fixedApp result r w = (result, r, w)"

definition okStore :: "unit Store" where
  "okStore = fixedStore (Resolved ''{}'') (Resolved (Obj []))"

definition okApp ::
  "request \<Rightarrow> unit \<Rightarrow> (string \<times> cookie) list response promise \<times> request \<times> unit" where
  "okApp = fixedApp (Resolved \<lparr>headers = []\<rparr>)"

definition testEnv :: "(unit, (string \<times> cookie) list) Env" where
  "testEnv =
     \<lparr>utils_encodeBase64 = rev,
      utils_decodeBase64 = rev,
      utils_makeHash = (\<lambda>x. ''h'' @ filter (\<lambda>c. c \<noteq> CHR ''-'') x),
      utils_setCookie = (\<lambda>h n c. h @ [(n, c)]),
      Date_now = (\<lambda>w. 1000)\<rparr>"

definition testSession ::
  "string option \<Rightarrow> int \<Rightarrow> unit Store
     \<Rightarrow> (request \<Rightarrow> unit \<Rightarrow> (string \<times> cookie) list response promise \<times> request \<times> unit)
     \<Rightarrow> (unit, (string \<times> cookie) list) Session" where
  "testSession secret expireAfter store app =
     \<lparr>this_secret = secret,
      this_name = ''_session'',
      this_path = ''/'',
      this_domain = None,
      this_isSecure = False,
      this_expireAfter = expireAfter,
      this_isHttpOnly = True,
      this_store = store,
      this_app = app\<rparr>"

definition testState :: "jsval \<Rightarrow> (string \<rightharpoonup> string) \<Rightarrow> unit st" where
  "testState sess cks = \<lparr>req = \<lparr>session = sess, cookies = cks\<rparr>, world = (), trace = []\<rparr>"

lemmas fixture_defs =
  fixedStore_def fixedApp_def okStore_def okApp_def testEnv_def testSession_def testState_def

lemmas string_defs =
  splitValue_def lastIndexOf_def occursAt_def substring_def substringFrom_def

section \<open>Properties\<close>

subsection \<open>The string primitives\<close>

lemma lastIndexFrom_none:
  "(lastIndexFrom s pat n = - 1) = (\<forall>k\<le>n. \<not> occursAt s pat k)"
proof (induction n)
  case 0
  then show ?case by simp
next
  case (Suc n)
  then show ?case by (auto simp: le_Suc_eq)
qed

lemma lastIndexFrom_last:
  "occursAt s pat k \<Longrightarrow> k \<le> n \<Longrightarrow> (\<forall>j. k < j \<and> j \<le> n \<longrightarrow> \<not> occursAt s pat j)
     \<Longrightarrow> lastIndexFrom s pat n = int k"
proof (induction n)
  case 0
  then show ?case by simp
next
  case (Suc n)
  show ?case
  proof (cases "k = Suc n")
    case True
    with Suc.prems show ?thesis by simp
  next
    case False
    with Suc.prems have "k \<le> n" by simp
    moreover from Suc.prems False have "\<not> occursAt s pat (Suc n)" by auto
    ultimately show ?thesis using Suc by simp
  qed
qed

lemma occursAt_sublist: "occursAt s pat k \<Longrightarrow> sublist pat s"
proof -
  assume a: "occursAt s pat k"
  have "s = take k s @ take (length pat) (drop k s) @ drop (length pat) (drop k s)"
    by (simp only: append_take_drop_id)
  with a have "s = take k s @ pat @ drop (length pat) (drop k s)"
    by (simp add: occursAt_def)
  then show ?thesis unfolding sublist_def by blast
qed

lemma lastIndexOf_absent: "\<not> sublist pat s \<Longrightarrow> lastIndexOf s pat = - 1"
  unfolding lastIndexOf_def lastIndexFrom_none using occursAt_sublist by blast

lemma substring_0_neg: "substring s 0 (- 1) = []"
  by (simp add: substring_def Let_def)

lemma substringFrom_1: "substringFrom s 1 = drop 1 s"
  by (cases s) (simp_all add: substringFrom_def substring_def Let_def)

lemma substring_prefix: "substring (d @ r) 0 (int (length d)) = d"
  by (simp add: substring_def Let_def)

lemma substringFrom_suffix: "substringFrom (d @ ''--'' @ h) (int (length d) + 2) = h"
  by (simp add: substringFrom_def substring_def Let_def nat_add_distrib)

text \<open>The second character of a two-character window that starts inside \<open>c # h\<close> is in \<open>h\<close>.\<close>

lemma window_second_in_tail:
  assumes "take 2 (drop m (c # h)) = [a, b]"
  shows "b \<in> set h"
proof (cases m)
  case 0
  with assms show ?thesis by (cases h) auto
next
  case (Suc m')
  with assms have "take 2 (drop m' h) = [a, b]" by simp
  then have "b \<in> set (take 2 (drop m' h))" by simp
  then have "b \<in> set (drop m' h)" by (rule in_set_takeD)
  then show ?thesis by (rule in_set_dropD)
qed

text \<open>
  When the hash has no hyphen, the last \<^verbatim>\<open>--\<close> of \<^verbatim>\<open>data + '--' + hash\<close> is the
  delimiter, whatever the data are.
\<close>

lemma lastIndexOf_delimiter:
  assumes "CHR ''-'' \<notin> set h"
  shows "lastIndexOf (d @ ''--'' @ h) ''--'' = int (length d)"
  unfolding lastIndexOf_def
proof (rule lastIndexFrom_last)
  show "occursAt (d @ ''--'' @ h) ''--'' (length d)"
    by (simp add: occursAt_def)
  show "length d \<le> length (d @ ''--'' @ h)" by simp
  show "\<forall>j. length d < j \<and> j \<le> length (d @ ''--'' @ h) \<longrightarrow> \<not> occursAt (d @ ''--'' @ h) ''--'' j"
  proof (intro allI impI notI)
    fix j
    assume j: "length d < j \<and> j \<le> length (d @ ''--'' @ h)"
      and occ: "occursAt (d @ ''--'' @ h) ''--'' j"
    from j have "length d < j" by simp
    then have "j = length d + Suc (j - Suc (length d))" by arith
    then obtain m where m: "j = length d + Suc m" ..
    from occ m have "take 2 (drop m (CHR ''-'' # h)) = [CHR ''-'', CHR ''-'']"
      by (simp add: occursAt_def numeral_2_eq_2)
    then have "CHR ''-'' \<in> set h" by (rule window_second_in_tail)
    with assms show False by simp
  qed
qed

subsection \<open>Decoding, and what the trace can hold\<close>

lemma decodeCookie_split:
  "splitValue (utils_decodeBase64 env c) = (data, hash) \<Longrightarrow>
   decodeCookie self env c s =
     (if hash = makeHash' env data (this_secret self)
      then (case load (this_store self) data (world s) of
              (p, w') \<Rightarrow> (Promise p, s\<lparr>world := w', trace := trace s @ [StoreLoad data]\<rparr>))
      else (Plain Null, s))"
  by (auto simp: decodeCookie_def splitValue_def Let_def)

lemma call_trace:
  "call app s = (p, s') \<Longrightarrow> trace s' = trace s @ [CallApp (session (req s))]"
  by (auto simp: call_def split: prod.splits)

lemma decodeCookie_trace:
  "decodeCookie self env c s = (d, s') \<Longrightarrow>
     filter isStoreSave (trace s') = filter isStoreSave (trace s) \<and>
     filter isSetCookie (trace s') = filter isSetCookie (trace s) \<and> req s' = req s"
  by (auto simp: decodeCookie_def Let_def split: if_splits prod.splits)

lemma decodeIfPresent_trace:
  "decodeIfPresent self env ck s = (d, s') \<Longrightarrow>
     filter isStoreSave (trace s') = filter isStoreSave (trace s) \<and>
     filter isSetCookie (trace s') = filter isSetCookie (trace s) \<and> req s' = req s"
  using decodeCookie_trace [of self env _ s d s']
  by (auto simp: decodeIfPresent_def split: option.splits if_splits)

lemma handlerState_trace:
  "filter isStoreSave (trace (handlerState self env s)) = filter isStoreSave (trace s) \<and>
   filter isSetCookie (trace (handlerState self env s)) = filter isSetCookie (trace s)"
proof (cases "decodeIfPresent self env (cookies (req s) (this_name self)) s")
  case (Pair d s')
  from decodeIfPresent_trace [OF Pair] show ?thesis
    by (cases "RSVP_resolve d") (simp_all add: handlerState_def Pair error_write_def)
qed

text \<open>
  Every path of \<^verbatim>\<open>apply\<close> calls the app exactly once, in the state \<open>handlerState\<close>;
  only when the request had no session and the decoding did not reject does anything
  follow the call.
\<close>

lemma Session_apply_handlerState:
  "Session_apply self env s =
     (case call (this_app self) (handlerState self env s) of
        (r, s2) \<Rightarrow>
          if truthy (session (req s)) then (r, s2)
          else
            (case RSVP_resolve (fst (decodeIfPresent self env (cookies (req s) (this_name self)) s)) of
               Rejected err \<Rightarrow> (r, s2)
             | Resolved sess \<Rightarrow>
                 (case r of
                    Resolved resp \<Rightarrow> onResponse self env (cookies (req s) (this_name self)) resp s2
                  | Rejected err \<Rightarrow> (Rejected err, s2))))"
  by (simp add: Session_apply_def handlerState_def onSession_def onDecodeError_def Let_def
        split: prod.splits promise.splits)

section \<open>The claims\<close>

text \<open>
  Claim C1. When the signature recovered from the decoded cookie differs from the
  signature recomputed over the recovered payload with the configured secret,
  \<^verbatim>\<open>decodeCookie\<close> returns \<^verbatim>\<open>null\<close> (it raises nothing, calls nothing and changes
  nothing), and \<^verbatim>\<open>apply\<close> then sets \<^verbatim>\<open>request.session = {}\<close> and calls the app on
  that request; nothing is logged in between.
\<close>

theorem signature_mismatch_yields_empty_session:
  assumes "\<not> truthy (session (req s))"
      and "cookies (req s) (this_name self) = Some c" and "c \<noteq> []"
      and "splitValue (utils_decodeBase64 env c) = (data, hash)"
      and "hash \<noteq> makeHash' env data (this_secret self)"
  shows "decodeCookie self env c s = (Plain Null, s) \<and>
         handlerState self env s = s\<lparr>req := (req s)\<lparr>session := Obj []\<rparr>\<rparr> \<and>
         Session_apply self env s =
           (case call (this_app self) (s\<lparr>req := (req s)\<lparr>session := Obj []\<rparr>\<rparr>) of
              (Resolved resp, s2) \<Rightarrow> onResponse self env (Some c) resp s2
            | (Rejected err, s2) \<Rightarrow> (Rejected err, s2))"
proof -
  from assms(4,5) have "decodeCookie self env c s = (Plain Null, s)"
    by (simp add: decodeCookie_split)
  with assms(1-3) show ?thesis
    by (simp add: Session_apply_def handlerState_def decodeIfPresent_def onSession_def
          split: prod.splits promise.splits)
qed

theorem signature_mismatch_yields_empty_session_witness:
  "\<not> truthy (session (req (testState Undefined [''_session'' \<mapsto> ''dab--cba'']))) \<and>
   splitValue (utils_decodeBase64 testEnv ''dab--cba'') = (''abc'', ''bad'') \<and>
   ''bad'' \<noteq> makeHash' testEnv ''abc'' (Some ''k'') \<and>
   decodeCookie (testSession (Some ''k'') 0 okStore okApp) testEnv ''dab--cba''
       (testState Undefined [''_session'' \<mapsto> ''dab--cba''])
     = (Plain Null, testState Undefined [''_session'' \<mapsto> ''dab--cba'']) \<and>
   session (req (handlerState (testSession (Some ''k'') 0 okStore okApp) testEnv
       (testState Undefined [''_session'' \<mapsto> ''dab--cba'']))) = Obj []"
proof -
  let ?s = "testState Undefined [''_session'' \<mapsto> ''dab--cba'']"
  let ?self = "testSession (Some ''k'') 0 okStore okApp"
  have h1: "\<not> truthy (session (req ?s))"
    by (simp add: testState_def)
  have h2: "cookies (req ?s) (this_name ?self) = Some ''dab--cba''"
    by (simp add: testState_def testSession_def)
  have h3: "''dab--cba'' \<noteq> []"
    by simp
  have h4: "splitValue (utils_decodeBase64 testEnv ''dab--cba'') = (''abc'', ''bad'')"
    by (simp add: testEnv_def string_defs Let_def)
  have h5: "''bad'' \<noteq> makeHash' testEnv ''abc'' (this_secret ?self)"
    by (simp add: makeHash'_def testEnv_def testSession_def)
  from h5 have h5': "''bad'' \<noteq> makeHash' testEnv ''abc'' (Some ''k'')"
    by (simp add: testSession_def)
  show ?thesis
    using signature_mismatch_yields_empty_session [OF h1 h2 h3 h4 h5] h1 h4 h5'
    by simp
qed

text \<open>
  Claim C2. When the store's \<^verbatim>\<open>save\<close> resolves with the data \<open>d\<close>, \<^verbatim>\<open>encodeSession\<close>
  builds the token \<^verbatim>\<open>base64(d + "--" + sig)\<close>, where \<open>sig\<close> is the hash of \<open>d\<close>
  followed by the secret when a non-empty secret is configured and the hash of \<open>d\<close>
  alone when the secret is unset or empty. Its promise rejects with the error
  \<^verbatim>\<open>Cookie data size exceeds 4kb; content dropped\<close> exactly when the token is longer
  than 4096, and resolves with the token otherwise.
\<close>

theorem encodeSession_token:
  assumes "save (this_store self) sess (world s) = (Resolved d, w')"
  shows "let sig = (case this_secret self of
                      None \<Rightarrow> utils_makeHash env d
                    | Some k \<Rightarrow> if k = [] then utils_makeHash env d else utils_makeHash env (d @ k));
             token = utils_encodeBase64 env (d @ ''--'' @ sig)
         in encodeSession self env sess s =
              (if 4096 < length token
               then Rejected (Error ''Cookie data size exceeds 4kb; content dropped'')
               else Resolved (Str token),
               s\<lparr>world := w', trace := trace s @ [StoreSave sess]\<rparr>)"
  using assms
  by (simp add: encodeSession_def makeHash'_def MAX_COOKIE_SIZE_def Let_def split: option.splits)

theorem encodeSession_token_witness:
  "save (this_store (testSession (Some ''k'') 0 okStore okApp)) (Obj []) () = (Resolved ''{}'', ()) \<and>
   encodeSession (testSession (Some ''k'') 0 okStore okApp) testEnv (Obj [])
       (testState (Obj []) Map.empty)
     = (Resolved (Str ''k}{h--}{''), (testState (Obj []) Map.empty)\<lparr>trace := [StoreSave (Obj [])]\<rparr>) \<and>
   save (this_store (testSession None 0
       (fixedStore (Resolved (replicate 5000 CHR ''a'')) (Resolved Null)) okApp)) (Obj []) ()
     = (Resolved (replicate 5000 CHR ''a''), ()) \<and>
   encodeSession (testSession None 0
       (fixedStore (Resolved (replicate 5000 CHR ''a'')) (Resolved Null)) okApp) testEnv (Obj [])
       (testState (Obj []) Map.empty)
     = (Rejected (Error ''Cookie data size exceeds 4kb; content dropped''),
        (testState (Obj []) Map.empty)\<lparr>trace := [StoreSave (Obj [])]\<rparr>)"
proof -
  let ?s = "testState (Obj []) Map.empty"
  let ?self = "testSession (Some ''k'') 0 okStore okApp"
  let ?big = "testSession None 0 (fixedStore (Resolved (replicate 5000 CHR ''a'')) (Resolved Null)) okApp"
  have h1: "save (this_store ?self) (Obj []) (world ?s) = (Resolved ''{}'', ())"
    by (simp add: fixture_defs)
  have h2: "save (this_store ?big) (Obj []) (world ?s) = (Resolved (replicate 5000 CHR ''a''), ())"
    by (simp add: fixture_defs)
  have w: "world ?s = ()"
    by simp
  show ?thesis
    using encodeSession_token [OF h1, of testEnv] encodeSession_token [OF h2, of testEnv] h1 h2
    unfolding w
    by (simp add: testEnv_def testSession_def testState_def Let_def)
qed

text \<open>
  Claim C3, as it holds. Take a request without a session whose named cookie is
  present and not empty, well formed or not. The rejection handler of \<^verbatim>\<open>apply\<close>
  runs in one case only: the hash recovered from the cookie equals the recomputed one
  and the promise of the store's \<^verbatim>\<open>load\<close> rejects. Then the middleware writes
  \<^verbatim>\<open>Error decoding session data: ...\<close> to the error stream and calls the app on the
  request as it came, with no session attached. When the two hashes differ, nothing is
  written and the app sees the session \<^verbatim>\<open>{}\<close>; when they are equal and \<^verbatim>\<open>load\<close>
  resolves, nothing is written and the app sees the loaded session, or \<^verbatim>\<open>{}\<close> when
  it is falsy.
\<close>

theorem decode_failure_branch:
  assumes "\<not> truthy (session (req s))"
      and "cookies (req s) (this_name self) = Some c" and "c \<noteq> []"
      and "splitValue (utils_decodeBase64 env c) = (data, hash)"
  shows "Session_apply self env s =
           (if hash = makeHash' env data (this_secret self)
            then (case load (this_store self) data (world s) of
                    (Rejected err, w') \<Rightarrow>
                      call (this_app self)
                        (s\<lparr>world := w',
                           trace := trace s @ [StoreLoad data,
                             ErrorWrite (''Error decoding session data: '' @ toString err)]\<rparr>)
                  | (Resolved v, w') \<Rightarrow>
                      onSession self env (Some c) v
                        (s\<lparr>world := w', trace := trace s @ [StoreLoad data]\<rparr>))
            else onSession self env (Some c) Null s) \<and>
         session (req (handlerState self env s)) =
           (if hash = makeHash' env data (this_secret self)
            then (case load (this_store self) data (world s) of
                    (Rejected err, w') \<Rightarrow> session (req s)
                  | (Resolved v, w') \<Rightarrow> if truthy v then v else Obj [])
            else Obj [])"
  using assms
  by (auto simp: Session_apply_def handlerState_def decodeIfPresent_def decodeCookie_split
        onDecodeError_def error_write_def
        split: prod.splits promise.splits)

theorem decode_failure_branch_witness:
  "\<not> truthy (session (req (testState Undefined [''_session'' \<mapsto> ''k}{h--}{'']))) \<and>
   splitValue (utils_decodeBase64 testEnv ''k}{h--}{'') = (''{}'', ''h{}k'') \<and>
   ''h{}k'' = makeHash' testEnv ''{}'' (Some ''k'') \<and>
   Session_apply
       (testSession (Some ''k'') 0 (fixedStore (Resolved ''{}'') (Rejected (Error ''store down''))) okApp)
       testEnv (testState Undefined [''_session'' \<mapsto> ''k}{h--}{''])
     = (Resolved \<lparr>headers = []\<rparr>,
        (testState Undefined [''_session'' \<mapsto> ''k}{h--}{''])
          \<lparr>trace := [StoreLoad ''{}'',
                      ErrorWrite ''Error decoding session data: Error: store down'',
                      CallApp Undefined]\<rparr>)"
proof -
  let ?s = "testState Undefined [''_session'' \<mapsto> ''k}{h--}{'']"
  let ?self = "testSession (Some ''k'') 0
                 (fixedStore (Resolved ''{}'') (Rejected (Error ''store down''))) okApp"
  have h1: "\<not> truthy (session (req ?s))"
    by (simp add: testState_def)
  have h2: "cookies (req ?s) (this_name ?self) = Some ''k}{h--}{''"
    by (simp add: testState_def testSession_def)
  have h3: "''k}{h--}{'' \<noteq> []"
    by simp
  have h4: "splitValue (utils_decodeBase64 testEnv ''k}{h--}{'') = (''{}'', ''h{}k'')"
    by (simp add: testEnv_def string_defs Let_def)
  have h5: "''h{}k'' = makeHash' testEnv ''{}'' (Some ''k'')"
    by (simp add: makeHash'_def testEnv_def)
  have sec: "this_secret ?self = Some ''k''"
    by (simp add: testSession_def)
  have ld: "load (this_store ?self) ''{}'' (world ?s) = (Rejected (Error ''store down''), ())"
    by (simp add: fixture_defs)
  have ap: "Session_apply ?self testEnv ?s
            = call (this_app ?self)
                (?s\<lparr>world := (), trace := trace ?s @ [StoreLoad ''{}'',
                    ErrorWrite (''Error decoding session data: '' @ toString (Error ''store down''))]\<rparr>)"
    using decode_failure_branch [OF h1 h2 h3 h4] h5
    unfolding sec ld
    by simp
  show ?thesis
    unfolding ap using h1 h4 h5
    by (simp add: call_def fixture_defs)
qed

text \<open>
  Claim C3 as it is worded fails on a wrong signature, one of the failures it lists:
  for the cookie \<^verbatim>\<open>dab--cba\<close> the check of \<^verbatim>\<open>decodeCookie\<close> fails, yet nothing is
  written to the error stream and the app is called with the session \<^verbatim>\<open>{}\<close>.
\<close>

theorem wrong_signature_not_logged:
  "cookies (req (testState Undefined [''_session'' \<mapsto> ''dab--cba''])) ''_session'' = Some ''dab--cba'' \<and>
   decodeCookie (testSession (Some ''k'') 0 okStore okApp) testEnv ''dab--cba''
       (testState Undefined [''_session'' \<mapsto> ''dab--cba''])
     = (Plain Null, testState Undefined [''_session'' \<mapsto> ''dab--cba'']) \<and>
   trace (snd (Session_apply (testSession (Some ''k'') 0 okStore okApp) testEnv
       (testState Undefined [''_session'' \<mapsto> ''dab--cba''])))
     = [CallApp (Obj []),
        StoreSave (Obj []),
        SetCookie ''_session''
          \<lparr>opt_value = Str ''k}{h--}{'', opt_path = ''/'', opt_domain = None,
             opt_expires = None, opt_httpOnly = True, opt_secure = False\<rparr>] \<and>
   filter isErrorWrite (trace (snd (Session_apply (testSession (Some ''k'') 0 okStore okApp) testEnv
       (testState Undefined [''_session'' \<mapsto> ''dab--cba'']))))
     = []"
proof -
  let ?s = "testState Undefined [''_session'' \<mapsto> ''dab--cba'']"
  let ?self = "testSession (Some ''k'') 0 okStore okApp"
  have dc: "decodeCookie ?self testEnv ''dab--cba'' ?s = (Plain Null, ?s)"
    by (simp add: decodeCookie_def makeHash'_def lastIndexOf_def occursAt_def substring_def
          substringFrom_def Let_def testEnv_def testSession_def)
  have ap: "Session_apply ?self testEnv ?s
      = (Resolved \<lparr>headers = [(''_session'',
            \<lparr>opt_value = Str ''k}{h--}{'', opt_path = ''/'', opt_domain = None,
               opt_expires = None, opt_httpOnly = True, opt_secure = False\<rparr>)]\<rparr>,
         \<lparr>req = \<lparr>session = Obj [], cookies = [''_session'' \<mapsto> ''dab--cba'']\<rparr>,
          world = (),
          trace = [CallApp (Obj []),
                   StoreSave (Obj []),
                   SetCookie ''_session''
                     \<lparr>opt_value = Str ''k}{h--}{'', opt_path = ''/'', opt_domain = None,
                        opt_expires = None, opt_httpOnly = True, opt_secure = False\<rparr>]\<rparr>)"
    by (simp add: Session_apply_def decodeIfPresent_def decodeCookie_def onSession_def
          onResponse_def onEncoded_def encodeSession_def makeHash'_def call_def cookieVal_def
          lastIndexOf_def occursAt_def substring_def substringFrom_def MAX_COOKIE_SIZE_def
          Let_def fixture_defs)
  show ?thesis
    unfolding ap using dc by (simp add: testState_def)
qed

text \<open>
  Claim C4. When the app resolved with a response and the promise of
  \<^verbatim>\<open>encodeSession\<close> rejects, whatever the error (the size error of C2 is one), the
  middleware writes \<^verbatim>\<open>Error encoding session data: ...\<close> to the error stream and
  resolves with the response of the app as it is: \<^verbatim>\<open>utils.setCookie\<close> has not been
  called.
\<close>

theorem encode_failure_keeps_response:
  assumes "\<not> truthy (session (req s))"
      and "decodeIfPresent self env (cookies (req s) (this_name self)) s = (d, s1)"
      and "RSVP_resolve d = Resolved v"
      and "call (this_app self) (s1\<lparr>req := (req s1)\<lparr>session := (if truthy v then v else Obj [])\<rparr>\<rparr>)
             = (Resolved resp, s2)"
      and "truthy (session (req s2))"
      and "encodeSession self env (session (req s2)) s2 = (Rejected e, s3)"
  shows "Session_apply self env s =
           (Resolved resp,
            s3\<lparr>trace := trace s3 @ [ErrorWrite (''Error encoding session data: '' @ toString e)]\<rparr>) \<and>
         filter isSetCookie (trace s3) = filter isSetCookie (trace s)"
proof -
  from assms have "Session_apply self env s =
           (Resolved resp,
            s3\<lparr>trace := trace s3 @ [ErrorWrite (''Error encoding session data: '' @ toString e)]\<rparr>)"
    by (simp add: Session_apply_def onSession_def onResponse_def onEncodeError_def error_write_def)
  moreover have "trace s3 = trace s2 @ [StoreSave (session (req s2))]"
    using assms(6)
    by (auto simp: encodeSession_def Let_def split: prod.splits promise.splits if_splits)
  moreover have "trace s2 = trace s1 @ [CallApp (if truthy v then v else Obj [])]"
    using call_trace [OF assms(4)] by simp
  moreover have "filter isSetCookie (trace s1) = filter isSetCookie (trace s)"
    using decodeIfPresent_trace [OF assms(2)] by simp
  ultimately show ?thesis by simp
qed

theorem encode_failure_keeps_response_witness:
  "\<not> truthy (session (req (testState Undefined Map.empty))) \<and>
   encodeSession
       (testSession None 0 (fixedStore (Resolved (replicate 5000 CHR ''a'')) (Resolved Null)) okApp)
       testEnv (Obj [])
       ((testState (Obj []) Map.empty)\<lparr>trace := [CallApp (Obj [])]\<rparr>)
     = (Rejected (Error ''Cookie data size exceeds 4kb; content dropped''),
        (testState (Obj []) Map.empty)\<lparr>trace := [CallApp (Obj []), StoreSave (Obj [])]\<rparr>) \<and>
   Session_apply
       (testSession None 0 (fixedStore (Resolved (replicate 5000 CHR ''a'')) (Resolved Null)) okApp)
       testEnv (testState Undefined Map.empty)
     = (Resolved \<lparr>headers = []\<rparr>,
        (testState (Obj []) Map.empty)
          \<lparr>trace := [CallApp (Obj []), StoreSave (Obj []),
             ErrorWrite ''Error encoding session data: Error: Cookie data size exceeds 4kb; content dropped'']\<rparr>)"
proof -
  let ?s = "testState Undefined Map.empty"
  let ?s2 = "(testState (Obj []) Map.empty)\<lparr>trace := [CallApp (Obj [])]\<rparr>"
  let ?s3 = "(testState (Obj []) Map.empty)\<lparr>trace := [CallApp (Obj []), StoreSave (Obj [])]\<rparr>"
  let ?self = "testSession None 0 (fixedStore (Resolved (replicate 5000 CHR ''a'')) (Resolved Null)) okApp"
  have h1: "\<not> truthy (session (req ?s))"
    by (simp add: testState_def)
  have h2: "decodeIfPresent ?self testEnv (cookies (req ?s) (this_name ?self)) ?s = (Plain Undefined, ?s)"
    by (simp add: decodeIfPresent_def testState_def)
  have h3: "RSVP_resolve (Plain Undefined) = Resolved Undefined"
    by simp
  have h4: "call (this_app ?self)
              (?s\<lparr>req := (req ?s)\<lparr>session := (if truthy Undefined then Undefined else Obj [])\<rparr>\<rparr>)
            = (Resolved \<lparr>headers = []\<rparr>, ?s2)"
    by (simp add: call_def fixture_defs)
  have h5: "truthy (session (req ?s2))"
    by (simp add: testState_def)
  have sess: "session (req ?s2) = Obj []"
    by (simp add: testState_def)
  have h6: "encodeSession ?self testEnv (Obj []) ?s2
            = (Rejected (Error ''Cookie data size exceeds 4kb; content dropped''), ?s3)"
    by (simp add: encodeSession_def makeHash'_def MAX_COOKIE_SIZE_def Let_def fixture_defs)
  from h6 have h6': "encodeSession ?self testEnv (session (req ?s2)) ?s2
            = (Rejected (Error ''Cookie data size exceeds 4kb; content dropped''), ?s3)"
    by (simp only: sess)
  show ?thesis
    using encode_failure_keeps_response [OF h1 h2 h3 h4 h5 h6'] h1 h6
    by (simp add: testState_def)
qed

text \<open>
  Claim C5. Decoding splits at the last \<^verbatim>\<open>--\<close>. Let \<^verbatim>\<open>utils.decodeBase64\<close> invert
  \<^verbatim>\<open>utils.encodeBase64\<close> and let \<^verbatim>\<open>utils.makeHash\<close> never produce a hyphen (it is a
  hexadecimal digest). Then for every data \<open>d\<close> that the store's \<^verbatim>\<open>save\<close> resolves
  with, hyphens or not, and every secret, the cookie that \<^verbatim>\<open>encodeSession\<close> resolves
  with is split by \<^verbatim>\<open>decodeCookie\<close> into \<open>d\<close> and its hash, the check passes, and
  \<^verbatim>\<open>load\<close> is called with exactly \<open>d\<close>.
\<close>

theorem decode_encode_roundtrip:
  assumes "encodeSession self env sess s = (Resolved (Str c), s1)"
      and "save (this_store self) sess (world s) = (Resolved d, w1)"
      and "\<forall>x. utils_decodeBase64 env (utils_encodeBase64 env x) = x"
      and "\<forall>x. CHR ''-'' \<notin> set (utils_makeHash env x)"
  shows "splitValue (utils_decodeBase64 env c) = (d, makeHash' env d (this_secret self)) \<and>
         decodeCookie self env c s2 =
           (case load (this_store self) d (world s2) of
              (p, w') \<Rightarrow> (Promise p, s2\<lparr>world := w', trace := trace s2 @ [StoreLoad d]\<rparr>))"
proof -
  let ?h = "makeHash' env d (this_secret self)"
  from assms(1,2) have "c = utils_encodeBase64 env (d @ ''--'' @ ?h)"
    by (simp add: encodeSession_def Let_def split: if_splits)
  with assms(3) have decoded: "utils_decodeBase64 env c = d @ ''--'' @ ?h"
    by simp
  from assms(4) have "CHR ''-'' \<notin> set ?h"
    by (simp add: makeHash'_def)
  then have "lastIndexOf (d @ ''--'' @ ?h) ''--'' = int (length d)"
    by (rule lastIndexOf_delimiter)
  then have parts: "splitValue (utils_decodeBase64 env c) = (d, ?h)"
    unfolding decoded splitValue_def Let_def
    by (simp only: substring_prefix substringFrom_suffix)
  show ?thesis
    using parts decodeCookie_split [OF parts, of self s2] by simp
qed

theorem decode_encode_roundtrip_witness:
  "encodeSession (testSession (Some ''k'') 0 (fixedStore (Resolved ''a--b'') (Resolved Null)) okApp)
       testEnv (Obj []) (testState (Obj []) Map.empty)
     = (Resolved (Str ''kbah--b--a''),
        (testState (Obj []) Map.empty)\<lparr>trace := [StoreSave (Obj [])]\<rparr>) \<and>
   (\<forall>x. utils_decodeBase64 testEnv (utils_encodeBase64 testEnv x) = x) \<and>
   (\<forall>x. CHR ''-'' \<notin> set (utils_makeHash testEnv x)) \<and>
   decodeCookie (testSession (Some ''k'') 0 (fixedStore (Resolved ''a--b'') (Resolved Null)) okApp)
       testEnv ''kbah--b--a'' (testState Undefined [''_session'' \<mapsto> ''kbah--b--a''])
     = (Promise (Resolved Null),
        (testState Undefined [''_session'' \<mapsto> ''kbah--b--a''])\<lparr>trace := [StoreLoad ''a--b'']\<rparr>)"
proof -
  let ?self = "testSession (Some ''k'') 0 (fixedStore (Resolved ''a--b'') (Resolved Null)) okApp"
  let ?s = "testState (Obj []) Map.empty"
  let ?s2 = "testState Undefined [''_session'' \<mapsto> ''kbah--b--a'']"
  have h1: "encodeSession ?self testEnv (Obj []) ?s
            = (Resolved (Str ''kbah--b--a''), ?s\<lparr>trace := [StoreSave (Obj [])]\<rparr>)"
    by (simp add: encodeSession_def makeHash'_def MAX_COOKIE_SIZE_def Let_def fixture_defs)
  have h2: "save (this_store ?self) (Obj []) (world ?s) = (Resolved ''a--b'', ())"
    by (simp add: fixture_defs)
  have h3: "\<forall>x. utils_decodeBase64 testEnv (utils_encodeBase64 testEnv x) = x"
    by (simp add: testEnv_def)
  have h4: "\<forall>x. CHR ''-'' \<notin> set (utils_makeHash testEnv x)"
    by (simp add: testEnv_def)
  have ld: "load (this_store ?self) ''a--b'' (world ?s2) = (Resolved Null, ())"
    by (simp add: fixture_defs)
  show ?thesis
    using decode_encode_roundtrip [OF h1 h2 h3 h4, of ?s2] h1 h3 h4
    unfolding ld
    by (simp add: testState_def)
qed

text \<open>
  Claim C6. When the promise of the app rejects, on whichever path \<^verbatim>\<open>apply\<close> called
  it, the promise of \<^verbatim>\<open>apply\<close> rejects with the same error and the state is the one
  the app left: the store's \<^verbatim>\<open>save\<close> (the first step of \<^verbatim>\<open>encodeSession\<close>) and
  \<^verbatim>\<open>utils.setCookie\<close> have not been called during the request.
\<close>

theorem handler_failure_propagates:
  assumes "call (this_app self) (handlerState self env s) = (Rejected e, s')"
  shows "Session_apply self env s = (Rejected e, s') \<and>
         filter isStoreSave (trace s') = filter isStoreSave (trace s) \<and>
         filter isSetCookie (trace s') = filter isSetCookie (trace s)"
proof -
  have "Session_apply self env s = (Rejected e, s')"
    using assms
    by (simp add: Session_apply_handlerState split: promise.splits)
  moreover from call_trace [OF assms] handlerState_trace [of self env s]
  have "filter isStoreSave (trace s') = filter isStoreSave (trace s) \<and>
        filter isSetCookie (trace s') = filter isSetCookie (trace s)"
    by simp
  ultimately show ?thesis by simp
qed

theorem handler_failure_propagates_witness:
  "call (this_app (testSession (Some ''k'') 0 okStore (fixedApp (Rejected (Error ''boom'')))))
       (handlerState (testSession (Some ''k'') 0 okStore (fixedApp (Rejected (Error ''boom''))))
          testEnv (testState Undefined [''_session'' \<mapsto> ''k}{h--}{'']))
     = (Rejected (Error ''boom''),
        (testState (Obj []) [''_session'' \<mapsto> ''k}{h--}{''])
          \<lparr>trace := [StoreLoad ''{}'', CallApp (Obj [])]\<rparr>) \<and>
   Session_apply (testSession (Some ''k'') 0 okStore (fixedApp (Rejected (Error ''boom''))))
       testEnv (testState Undefined [''_session'' \<mapsto> ''k}{h--}{''])
     = (Rejected (Error ''boom''),
        (testState (Obj []) [''_session'' \<mapsto> ''k}{h--}{''])
          \<lparr>trace := [StoreLoad ''{}'', CallApp (Obj [])]\<rparr>)"
proof -
  let ?self = "testSession (Some ''k'') 0 okStore (fixedApp (Rejected (Error ''boom'')))"
  let ?s = "testState Undefined [''_session'' \<mapsto> ''k}{h--}{'']"
  have h: "call (this_app ?self) (handlerState ?self testEnv ?s)
           = (Rejected (Error ''boom''),
              (testState (Obj []) [''_session'' \<mapsto> ''k}{h--}{''])
                \<lparr>trace := [StoreLoad ''{}'', CallApp (Obj [])]\<rparr>)"
    by (simp add: call_def handlerState_def decodeIfPresent_def decodeCookie_def makeHash'_def
          lastIndexOf_def occursAt_def substring_def substringFrom_def Let_def fixture_defs)
  show ?thesis
    using handler_failure_propagates [OF h] h by simp
qed

text \<open>
  Claim C7. When the request already carries a session (\<^verbatim>\<open>request.session\<close> is an
  object, or any other truthy value), \<^verbatim>\<open>apply\<close> is the call of the app and nothing
  else: the result is the promise of the app, the request and the world are as the
  app left them, and the only call recorded is that of the app, made with the session
  the request came with.
\<close>

theorem existing_session_passes_through:
  "truthy (session (req s)) \<Longrightarrow>
   Session_apply self env s =
     (case this_app self (req s) (world s) of
        (p, r', w') \<Rightarrow>
          (p, s\<lparr>req := r', world := w', trace := trace s @ [CallApp (session (req s))]\<rparr>))"
  by (simp add: Session_apply_def call_def)

theorem existing_session_passes_through_witness:
  "truthy (session (req (testState (Obj [(''user'', Str ''ann'')]) [''_session'' \<mapsto> ''k}{h--}{'']))) \<and>
   Session_apply (testSession (Some ''k'') 60 okStore okApp) testEnv
       (testState (Obj [(''user'', Str ''ann'')]) [''_session'' \<mapsto> ''k}{h--}{''])
     = (Resolved \<lparr>headers = []\<rparr>,
        (testState (Obj [(''user'', Str ''ann'')]) [''_session'' \<mapsto> ''k}{h--}{''])
          \<lparr>trace := [CallApp (Obj [(''user'', Str ''ann'')])]\<rparr>)"
proof -
  let ?s = "testState (Obj [(''user'', Str ''ann'')]) [''_session'' \<mapsto> ''k}{h--}{'']"
  have h: "truthy (session (req ?s))"
    by (simp add: testState_def)
  show ?thesis
    using h existing_session_passes_through [OF h, of "testSession (Some ''k'') 60 okStore okApp" testEnv]
    by (simp add: fixture_defs)
qed

text \<open>
  Claim C8. Let the app have resolved with a response and \<^verbatim>\<open>encodeSession\<close> with
  the new cookie. When the new cookie equals the cookie the request came with and
  \<^verbatim>\<open>expireAfter\<close> is 0, the middleware resolves with the response as it is, without
  calling \<^verbatim>\<open>utils.setCookie\<close>. Otherwise it sets the cookie; when \<^verbatim>\<open>expireAfter\<close>
  is not 0 (above 0 in particular) the cookie expires at
  \<^verbatim>\<open>Date.now() + expireAfter * 1000\<close>, and it is set whether or not its value has
  changed.
\<close>

theorem unchanged_cookie_skipped_unless_expiring:
  assumes "\<not> truthy (session (req s))"
      and "decodeIfPresent self env (cookies (req s) (this_name self)) s = (d, s1)"
      and "RSVP_resolve d = Resolved v"
      and "call (this_app self) (s1\<lparr>req := (req s1)\<lparr>session := (if truthy v then v else Obj [])\<rparr>\<rparr>)
             = (Resolved resp, s2)"
      and "truthy (session (req s2))"
      and "encodeSession self env (session (req s2)) s2 = (Resolved newCookie, s3)"
  shows "Session_apply self env s =
           (if newCookie = cookieVal (cookies (req s) (this_name self)) \<and> this_expireAfter self = 0
            then (Resolved resp, s3)
            else
              (let opts = \<lparr>opt_value = newCookie,
                           opt_path = this_path self,
                           opt_domain = this_domain self,
                           opt_expires =
                             (if this_expireAfter self = 0 then None
                              else Some (Date_now env (world s3) + this_expireAfter self * 1000)),
                           opt_httpOnly = this_isHttpOnly self,
                           opt_secure = this_isSecure self\<rparr>
               in (Resolved (resp\<lparr>headers := utils_setCookie env (headers resp) (this_name self) opts\<rparr>),
                   s3\<lparr>trace := trace s3 @ [SetCookie (this_name self) opts]\<rparr>)))"
  using assms
  by (simp add: Session_apply_def onSession_def onResponse_def onEncoded_def Let_def)

theorem unchanged_cookie_skipped_unless_expiring_witness:
  "\<not> truthy (session (req (testState Undefined [''_session'' \<mapsto> ''k}{h--}{'']))) \<and>
   encodeSession (testSession (Some ''k'') 0 okStore okApp) testEnv (Obj [])
       ((testState (Obj []) [''_session'' \<mapsto> ''k}{h--}{''])
          \<lparr>trace := [StoreLoad ''{}'', CallApp (Obj [])]\<rparr>)
     = (Resolved (Str ''k}{h--}{''),
        (testState (Obj []) [''_session'' \<mapsto> ''k}{h--}{''])
          \<lparr>trace := [StoreLoad ''{}'', CallApp (Obj []), StoreSave (Obj [])]\<rparr>) \<and>
   Session_apply (testSession (Some ''k'') 0 okStore okApp) testEnv
       (testState Undefined [''_session'' \<mapsto> ''k}{h--}{''])
     = (Resolved \<lparr>headers = []\<rparr>,
        (testState (Obj []) [''_session'' \<mapsto> ''k}{h--}{''])
          \<lparr>trace := [StoreLoad ''{}'', CallApp (Obj []), StoreSave (Obj [])]\<rparr>) \<and>
   Session_apply (testSession (Some ''k'') 60 okStore okApp) testEnv
       (testState Undefined [''_session'' \<mapsto> ''k}{h--}{''])
     = (Resolved \<lparr>headers = [(''_session'',
            \<lparr>opt_value = Str ''k}{h--}{'', opt_path = ''/'', opt_domain = None,
               opt_expires = Some 61000, opt_httpOnly = True, opt_secure = False\<rparr>)]\<rparr>,
        (testState (Obj []) [''_session'' \<mapsto> ''k}{h--}{''])
          \<lparr>trace := [StoreLoad ''{}'', CallApp (Obj []), StoreSave (Obj []),
             SetCookie ''_session''
               \<lparr>opt_value = Str ''k}{h--}{'', opt_path = ''/'', opt_domain = None,
                  opt_expires = Some 61000, opt_httpOnly = True, opt_secure = False\<rparr>]\<rparr>)"
proof -
  let ?s = "testState Undefined [''_session'' \<mapsto> ''k}{h--}{'']"
  let ?s1 = "?s\<lparr>trace := [StoreLoad ''{}'']\<rparr>"
  let ?s2 = "(testState (Obj []) [''_session'' \<mapsto> ''k}{h--}{''])
               \<lparr>trace := [StoreLoad ''{}'', CallApp (Obj [])]\<rparr>"
  let ?s3 = "(testState (Obj []) [''_session'' \<mapsto> ''k}{h--}{''])
               \<lparr>trace := [StoreLoad ''{}'', CallApp (Obj []), StoreSave (Obj [])]\<rparr>"
  have h1: "\<not> truthy (session (req ?s))"
    by (simp add: testState_def)
  have h5: "truthy (session (req ?s2))"
    by (simp add: testState_def)
  have sess: "session (req ?s2) = Obj []"
    by (simp add: testState_def)
  have h2: "decodeIfPresent (testSession (Some ''k'') n okStore okApp) testEnv
              (cookies (req ?s) (this_name (testSession (Some ''k'') n okStore okApp))) ?s
            = (Promise (Resolved (Obj [])), ?s1)" for n
    by (simp add: decodeIfPresent_def decodeCookie_def makeHash'_def lastIndexOf_def occursAt_def
          substring_def substringFrom_def Let_def fixture_defs)
  have h3: "RSVP_resolve (Promise (Resolved (Obj []))) = Resolved (Obj [])"
    by simp
  have h4: "call (this_app (testSession (Some ''k'') n okStore okApp))
              (?s1\<lparr>req := (req ?s1)\<lparr>session := (if truthy (Obj []) then Obj [] else Obj [])\<rparr>\<rparr>)
            = (Resolved \<lparr>headers = []\<rparr>, ?s2)" for n
    by (simp add: call_def fixture_defs)
  have e: "encodeSession (testSession (Some ''k'') n okStore okApp) testEnv (Obj []) ?s2
           = (Resolved (Str ''k}{h--}{''), ?s3)" for n
    by (simp add: encodeSession_def makeHash'_def MAX_COOKIE_SIZE_def Let_def fixture_defs)
  have h6: "encodeSession (testSession (Some ''k'') n okStore okApp) testEnv (session (req ?s2)) ?s2
           = (Resolved (Str ''k}{h--}{''), ?s3)" for n
    unfolding sess by (rule e)
  have skipped: "Session_apply (testSession (Some ''k'') 0 okStore okApp) testEnv ?s
                 = (Resolved \<lparr>headers = []\<rparr>, ?s3)"
    using unchanged_cookie_skipped_unless_expiring [OF h1 h2 h3 h4 h5 h6, of 0]
    by (simp add: cookieVal_def testSession_def testState_def)
  have expiring: "Session_apply (testSession (Some ''k'') 60 okStore okApp) testEnv ?s
      = (Resolved \<lparr>headers = [(''_session'',
            \<lparr>opt_value = Str ''k}{h--}{'', opt_path = ''/'', opt_domain = None,
               opt_expires = Some 61000, opt_httpOnly = True, opt_secure = False\<rparr>)]\<rparr>,
         ?s3\<lparr>trace := [StoreLoad ''{}'', CallApp (Obj []), StoreSave (Obj []),
             SetCookie ''_session''
               \<lparr>opt_value = Str ''k}{h--}{'', opt_path = ''/'', opt_domain = None,
                  opt_expires = Some 61000, opt_httpOnly = True, opt_secure = False\<rparr>]\<rparr>)"
    using unchanged_cookie_skipped_unless_expiring [OF h1 h2 h3 h4 h5 h6, of 60]
    by (simp add: cookieVal_def testSession_def testState_def testEnv_def Let_def)
  show ?thesis
    using h1 e [of 0] skipped expiring by simp
qed

text \<open>
  Claim C9, as it holds. The module defines a getter for each key of \<^verbatim>\<open>submodules\<close>,
  and for nothing else: there are exactly three, named \<^verbatim>\<open>CookieStore\<close>,
  \<^verbatim>\<open>MemoryStore\<close> and \<^verbatim>\<open>RedisStore\<close>, and each requires its own file when it is read.
\<close>

theorem store_getters:
  "getterNames = [''CookieStore'', ''MemoryStore'', ''RedisStore''] \<and>
   dom getter = set getterNames \<and>
   getter ''CookieStore'' = Some ''./session/cookie-store'' \<and>
   getter ''MemoryStore'' = Some ''./session/memory-store'' \<and>
   getter ''RedisStore'' = Some ''./session/redis-store''"
proof -
  have g: "getter = map_of submodules"
    by (rule ext) (simp add: getter_def)
  have "dom getter = set getterNames"
    unfolding g getterNames_def by (simp add: dom_map_of_conv_image_fst)
  then show ?thesis
    by (simp add: getter_def getterNames_def submodules_def)
qed

text \<open>
  Claim C9 as it is worded names the third store \<^verbatim>\<open>RemoteStore\<close>; the module has no
  getter of that name.
\<close>

theorem no_RemoteStore_getter:
  "getter ''RemoteStore'' = None \<and> ''RemoteStore'' \<notin> set getterNames"
  by (simp add: getter_def getterNames_def submodules_def)

text \<open>
  Claim C10. When the decoded cookie has no \<^verbatim>\<open>--\<close>, \<^verbatim>\<open>lastIndexOf\<close> is \<open>-1\<close>, so
  \<^verbatim>\<open>decodeCookie\<close> takes the empty string for the data and the decoded value without
  its first character for the hash. It returns the promise of \<^verbatim>\<open>load("")\<close> exactly
  when that hash is \<^verbatim>\<open>_makeHash("", secret)\<close>, and \<^verbatim>\<open>null\<close> otherwise; the splitting
  and the comparison raise nothing.
\<close>

theorem no_delimiter_decode:
  assumes "\<not> sublist ''--'' (utils_decodeBase64 env c)"
  shows "lastIndexOf (utils_decodeBase64 env c) ''--'' = - 1 \<and>
         splitValue (utils_decodeBase64 env c) = ([], drop 1 (utils_decodeBase64 env c)) \<and>
         decodeCookie self env c s =
           (if drop 1 (utils_decodeBase64 env c) = makeHash' env [] (this_secret self)
            then (case load (this_store self) [] (world s) of
                    (p, w') \<Rightarrow> (Promise p, s\<lparr>world := w', trace := trace s @ [StoreLoad []]\<rparr>))
            else (Plain Null, s))"
proof -
  from assms have absent: "lastIndexOf (utils_decodeBase64 env c) ''--'' = - 1"
    by (rule lastIndexOf_absent)
  then have parts: "splitValue (utils_decodeBase64 env c) = ([], drop 1 (utils_decodeBase64 env c))"
    by (simp add: splitValue_def substring_0_neg substringFrom_1)
  show ?thesis
    using absent parts decodeCookie_split [OF parts, of self s] by simp
qed

theorem no_delimiter_decode_witness:
  "\<not> sublist ''--'' (utils_decodeBase64 testEnv ''cba'') \<and>
   decodeCookie (testSession None 0 okStore okApp) testEnv ''cba'' (testState Undefined Map.empty)
     = (Plain Null, testState Undefined Map.empty) \<and>
   \<not> sublist ''--'' (utils_decodeBase64 testEnv ''hX'') \<and>
   decodeCookie (testSession None 0 okStore okApp) testEnv ''hX'' (testState Undefined Map.empty)
     = (Promise (Resolved (Obj [])), (testState Undefined Map.empty)\<lparr>trace := [StoreLoad []]\<rparr>)"
proof -
  let ?self = "testSession None 0 okStore okApp"
  let ?s = "testState Undefined Map.empty"
  have h1: "\<not> sublist ''--'' (utils_decodeBase64 testEnv ''cba'')"
    by (simp add: testEnv_def sublist_Cons_right)
  have h2: "\<not> sublist ''--'' (utils_decodeBase64 testEnv ''hX'')"
    by (simp add: testEnv_def sublist_Cons_right)
  have v1: "drop 1 (utils_decodeBase64 testEnv ''cba'') \<noteq> makeHash' testEnv [] (this_secret ?self)"
    by (simp add: makeHash'_def testEnv_def testSession_def)
  have v2: "drop 1 (utils_decodeBase64 testEnv ''hX'') = makeHash' testEnv [] (this_secret ?self)"
    by (simp add: makeHash'_def testEnv_def testSession_def)
  have ld: "load (this_store ?self) [] (world ?s) = (Resolved (Obj []), ())"
    by (simp add: fixture_defs)
  have a: "decodeCookie ?self testEnv ''cba'' ?s = (Plain Null, ?s)"
    using no_delimiter_decode [OF h1, of ?self ?s] v1 by simp
  have b: "decodeCookie ?self testEnv ''hX'' ?s
           = (Promise (Resolved (Obj [])), ?s\<lparr>trace := [StoreLoad []]\<rparr>)"
    using no_delimiter_decode [OF h2, of ?self ?s] v2 ld by (simp add: testState_def)
  show ?thesis
    using h1 h2 a b by simp
qed


end
